theory Spec2Isabelle
  imports Main "HOL-Library.Code_Target_Nat"
begin

section \<open>Python strings\<close>

text \<open>
  A Python \<open>str\<close> is a sequence of Unicode code points. A character is modelled by its
  code point, a natural number, and a string by the list of its code points; \<open>py\<close> turns
  a literal into such a string. The library functions of \<open>str\<close> and \<open>re\<close> that
  \<open>hosts_manager/editor.py\<close> calls are written out here from their documented
  behaviour. A file is modelled by the text it holds: encoding and decoding are not
  modelled.
\<close>

type_synonym codepoint = nat

type_synonym pystr = "codepoint list"

abbreviation py :: "string \<Rightarrow> pystr" where
  "py s \<equiv> map of_char s"

definition isspace :: "codepoint \<Rightarrow> bool" where
  \<comment> \<open>The white space of \<open>str.strip()\<close>, \<open>str.isspace()\<close> and of \<open>\s\<close> in a \<open>str\<close>
     pattern: TAB, LF, VT, FF, CR, FS, GS, RS, US, SPACE, NEL, NBSP, U+1680,
     U+2000 to U+200A, U+2028, U+2029, U+202F, U+205F, U+3000.\<close>
  "isspace c = (c \<in> set [0x09, 0x0A, 0x0B, 0x0C, 0x0D, 0x1C, 0x1D, 0x1E, 0x1F, 0x20,
     0x85, 0xA0, 0x1680, 0x2000, 0x2001, 0x2002, 0x2003, 0x2004, 0x2005, 0x2006, 0x2007,
     0x2008, 0x2009, 0x200A, 0x2028, 0x2029, 0x202F, 0x205F, 0x3000])"

definition is_linebreak :: "codepoint \<Rightarrow> bool" where
  \<comment> \<open>The line boundaries of \<open>str.splitlines()\<close>: LF, VT, FF, CR, FS, GS, RS, NEL,
     the line separator U+2028 and the paragraph separator U+2029.\<close>
  "is_linebreak c = (c \<in> set [0x0A, 0x0B, 0x0C, 0x0D, 0x1C, 0x1D, 0x1E, 0x85,
     0x2028, 0x2029])"

definition strip :: "pystr \<Rightarrow> pystr" where
  \<comment> \<open>\<open>s.strip()\<close>\<close>
  "strip s = rev (dropWhile isspace (rev (dropWhile isspace s)))"

definition strip_chars :: "pystr \<Rightarrow> pystr \<Rightarrow> pystr" where
  \<comment> \<open>\<open>s.strip(cs)\<close>\<close>
  "strip_chars cs s =
     rev (dropWhile (\<lambda>c. c \<in> set cs) (rev (dropWhile (\<lambda>c. c \<in> set cs) s)))"

definition startswith :: "pystr \<Rightarrow> pystr \<Rightarrow> bool" where
  \<comment> \<open>\<open>s.startswith(p)\<close>\<close>
  "startswith s p = (take (length p) s = p)"

definition endswith :: "pystr \<Rightarrow> pystr \<Rightarrow> bool" where
  \<comment> \<open>\<open>s.endswith(p)\<close>\<close>
  "endswith s p = (length p \<le> length s \<and> drop (length s - length p) s = p)"

fun contains :: "pystr \<Rightarrow> pystr \<Rightarrow> bool" where
  \<comment> \<open>\<open>sub in s\<close> for two strings\<close>
  "contains sub [] = (sub = [])"
| "contains sub (c # cs) = (startswith (c # cs) sub \<or> contains sub cs)"

text \<open>
  Case. The three functions below follow Python on the code points up to U+00FF
  (ASCII and Latin-1). The cased letters from U+0100 on are not modelled: they are left
  as they are and count as uncased.
\<close>

definition is_upper_char :: "codepoint \<Rightarrow> bool" where
  \<comment> \<open>the upper-case letters up to U+00FF: A to Z, and U+00C0 to U+00DE without the
     multiplication sign U+00D7\<close>
  "is_upper_char c =
     ((0x41 \<le> c \<and> c \<le> 0x5A) \<or> (0xC0 \<le> c \<and> c \<le> 0xDE \<and> c \<noteq> 0xD7))"

definition is_lower_char :: "codepoint \<Rightarrow> bool" where
  \<comment> \<open>the lower-case letters up to U+00FF: a to z, the ordinal indicators U+00AA and
     U+00BA, the micro sign U+00B5, and U+00DF to U+00FF without the division sign
     U+00F7\<close>
  "is_lower_char c =
     ((0x61 \<le> c \<and> c \<le> 0x7A) \<or> c = 0xAA \<or> c = 0xB5 \<or> c = 0xBA
      \<or> (0xDF \<le> c \<and> c \<le> 0xFF \<and> c \<noteq> 0xF7))"

definition lower_char :: "codepoint \<Rightarrow> codepoint" where
  "lower_char c = (if is_upper_char c then c + 0x20 else c)"

definition upper_char :: "codepoint \<Rightarrow> pystr" where
  \<comment> \<open>the sharp s becomes \<open>SS\<close>; the micro sign and the y with diaeresis have their capitals
     beyond U+00FF\<close>
  "upper_char c =
     (if (0x61 \<le> c \<and> c \<le> 0x7A) \<or> (0xE0 \<le> c \<and> c \<le> 0xFE \<and> c \<noteq> 0xF7) then [c - 0x20]
      else if c = 0xB5 then [0x39C]
      else if c = 0xDF then [0x53, 0x53]
      else if c = 0xFF then [0x178]
      else [c])"

definition lower :: "pystr \<Rightarrow> pystr" where
  \<comment> \<open>\<open>s.lower()\<close>\<close>
  "lower s = map lower_char s"

definition upper :: "pystr \<Rightarrow> pystr" where
  \<comment> \<open>\<open>s.upper()\<close>\<close>
  "upper s = concat (map upper_char s)"

definition isupper :: "pystr \<Rightarrow> bool" where
  \<comment> \<open>\<open>s.isupper()\<close>: at least one upper-case letter and no lower-case one\<close>
  "isupper s = (list_ex is_upper_char s \<and> \<not> list_ex is_lower_char s)"

definition starts_with_digit :: "pystr \<Rightarrow> bool" where
  \<comment> \<open>\<open>any(s.startswith(d) for d in "0123456789")\<close>\<close>
  "starts_with_digit s = list_ex (\<lambda>d. startswith s [d]) (py ''0123456789'')"

definition starts_hash_space_digit :: "pystr \<Rightarrow> bool" where
  \<comment> \<open>\<open>any(s.startswith(f"# {d}") for d in "0123456789")\<close>\<close>
  "starts_hash_space_digit s =
     list_ex (\<lambda>d. startswith s (py ''# '' @ [d])) (py ''0123456789'')"

definition before_first_hash :: "pystr \<Rightarrow> pystr" where
  \<comment> \<open>\<open>s.split("#")[0]\<close>: the text before the first \<open>#\<close>, all of \<open>s\<close> when it has none\<close>
  "before_first_hash s = takeWhile (\<lambda>c. c \<noteq> 0x23) s"

fun re_sub_hash_space :: "pystr \<Rightarrow> pystr" where
  \<comment> \<open>\<open>re.sub(r"^#\s*", "", line)\<close>: without the MULTILINE flag \<open>^\<close> matches at the start of the
     string only, and \<open>\s*\<close> is greedy\<close>
  "re_sub_hash_space [] = []"
| "re_sub_hash_space (c # cs) = (if c = 0x23 then dropWhile isspace cs else c # cs)"

fun join_newline :: "pystr list \<Rightarrow> pystr" where
  \<comment> \<open>\<open>"\n".join(ls)\<close>\<close>
  "join_newline [] = []"
| "join_newline [l] = l"
| "join_newline (l # m # ls) = l @ 0x0A # join_newline (m # ls)"

fun universal_newlines :: "pystr \<Rightarrow> pystr" where
  \<comment> \<open>reading in text mode: \<open>\r\n\<close> and a lone \<open>\r\<close> arrive as \<open>\n\<close>\<close>
  "universal_newlines [] = []"
| "universal_newlines [c] = (if c = 0x0D then [0x0A] else [c])"
| "universal_newlines (c # d # cs) =
     (if c = 0x0D \<and> d = 0x0A then 0x0A # universal_newlines cs
      else if c = 0x0D then 0x0A # universal_newlines (d # cs)
      else c # universal_newlines (d # cs))"

function splitlines :: "pystr \<Rightarrow> pystr list" where
  \<comment> \<open>\<open>s.splitlines()\<close>: the line boundaries are not kept; \<open>\r\n\<close> is one boundary; a
     boundary at the very end opens no further line\<close>
  "splitlines [] = []"
| "splitlines (c # cs) =
     (let line = takeWhile (\<lambda>x. \<not> is_linebreak x) (c # cs);
          rest = dropWhile (\<lambda>x. \<not> is_linebreak x) (c # cs)
      in case rest of
           [] \<Rightarrow> [line]
         | b # r \<Rightarrow> line # splitlines
             (if b = 0x0D \<and> startswith r [0x0A] then drop 1 r else r))"
  by pat_completeness auto
termination
proof (relation "measure length")
  show "wf (measure length)" by simp
next
  fix c :: codepoint and cs x xa :: pystr and x21 :: codepoint and x22 :: pystr
  assume "xa = dropWhile (\<lambda>x. \<not> is_linebreak x) (c # cs)" and "xa = x21 # x22"
  then have "length (x21 # x22) \<le> length (c # cs)"
    using length_dropWhile_le [of "\<lambda>x. \<not> is_linebreak x" "c # cs"] by simp
  then show "(if x21 = 0x0D \<and> startswith x22 [0x0A] then drop 1 x22 else x22, c # cs)
    \<in> measure length"
    by auto
qed

section \<open>The editor and its effects\<close>

text \<open>
  \<open>HostsEditor\<close> keeps the path of the hosts file and the lines read from it. The file
  system is part of the state: \<open>path_text\<close> is the text of the file at \<open>self.path\<close>,
  \<open>bak_text\<close> the text of the file at \<open>self.path + ".bak"\<close>, \<open>None\<close> while it does not
  exist. What an operation prints, asks and does to the file system is returned as a
  list of events, in order.
\<close>

record editor =
  lines :: "pystr list"
  path_text :: pystr
  bak_text :: "pystr option"

datatype py_error = FileNotFoundError | TypeError

datatype message =
    NoChangesToApply
  | ProposedChanges
  | ChangesDiscarded
  | ChangesApplied
  | NoEntryFound pystr
  | NoActiveEntryFound pystr
  | NoCommentedEntryFound pystr
  | SearchHit nat pystr
  | NoResults "pystr option"
  | SectionNotFound pystr
  | NoChangesNeededSite pystr pystr
  | NoChangesNeededSection pystr
  | SectionsFound "(pystr \<times> pystr list) list"
  | NoSectionsFound
  | DisabledEntries nat pystr "pystr option"
  | EnabledEntries nat pystr "pystr option"

datatype event = Print message | Input | Copy2 | WriteText pystr

definition truthy :: "pystr option \<Rightarrow> bool" where
  \<comment> \<open>the truth value of an optional pystr: \<open>None\<close> and \<open>""\<close> are false\<close>
  "truthy v = (case v of None \<Rightarrow> False | Some s \<Rightarrow> s \<noteq> [])"

definition file_text :: "pystr list \<Rightarrow> pystr" where
  \<comment> \<open>the text \<open>_write_file\<close> writes: \<open>"\n".join(new_lines) + "\n"\<close>\<close>
  "file_text new_lines = join_newline new_lines @ [0x0A]"

definition read_text :: "pystr \<Rightarrow> pystr list" where
  \<comment> \<open>\<open>self.path.read_text().splitlines()\<close> on a file holding the given text\<close>
  "read_text t = splitlines (universal_newlines t)"

definition read_file :: "editor \<Rightarrow> pystr list" where
  "read_file e = read_text (path_text e)"

definition init :: "pystr option \<Rightarrow> py_error + editor" where
  \<comment> \<open>\<open>__init__\<close>: the argument is the text at the path, \<open>None\<close> when nothing exists there\<close>
  "init fs = (case fs of
       None \<Rightarrow> Inl FileNotFoundError
     | Some t \<Rightarrow> Inr \<lparr>lines = read_text t, path_text = t, bak_text = None\<rparr>)"

definition show_diff :: "editor \<Rightarrow> pystr list \<Rightarrow> bool \<times> event list" where
  \<comment> \<open>\<open>difflib.unified_diff\<close> yields no line exactly when the two sequences are equal;
     the text of the diff is not modelled\<close>
  "show_diff e new_lines =
     (if new_lines = lines e then (False, [Print NoChangesToApply])
      else (True, [Print ProposedChanges]))"

definition copy2 :: "editor \<Rightarrow> editor" where
  \<comment> \<open>\<open>copy2(self.path, backup_path)\<close>\<close>
  "copy2 e = e\<lparr>bak_text := Some (path_text e)\<rparr>"

definition write_text :: "pystr \<Rightarrow> editor \<Rightarrow> editor" where
  \<comment> \<open>\<open>self.path.write_text(t)\<close>\<close>
  "write_text t e = e\<lparr>path_text := t\<rparr>"

definition write_file :: "pystr list option \<Rightarrow> pystr \<Rightarrow> editor \<Rightarrow> editor \<times> event list" where
  \<comment> \<open>\<open>_write_file\<close>; \<open>answer\<close> is the line the user types when \<open>input\<close> asks. In
     \<open>new_lines or self.lines\<close> both \<open>None\<close> and the empty list are false.\<close>
  "write_file new_lines answer e =
     (let new_lines = (case new_lines of
                         None \<Rightarrow> lines e
                       | Some nl \<Rightarrow> if nl = [] then lines e else nl);
          (has_changes, shown) = show_diff e new_lines
      in if \<not> has_changes then (e, shown)
         else if lower (strip answer) \<noteq> py ''y''
           then (e, shown @ [Input, Print ChangesDiscarded])
         else
           (let e1 = copy2 e;
                e2 = write_text (file_text new_lines) e1;
                e3 = e2\<lparr>lines := new_lines\<rparr>
            in (e3, shown @ [Input, Copy2, WriteText (file_text new_lines),
                  Print ChangesApplied])))"

section \<open>Operations\<close>

fun find_section_index :: "pystr \<Rightarrow> pystr list \<Rightarrow> nat option" where
  \<comment> \<open>\<open>_find_section_index\<close>, on \<open>self.lines\<close>\<close>
  "find_section_index section [] = None"
| "find_section_index section (line # rest) =
     (if lower (strip line) = lower (py ''# '' @ section) then Some 0
      else map_option Suc (find_section_index section rest))"

definition entry_line :: "pystr \<Rightarrow> pystr \<Rightarrow> pystr option \<Rightarrow> pystr" where
  \<comment> \<open>the entry of \<open>add_entry\<close>: \<open>f"{ip}\t{hostname}"\<close>, then \<open>f"  # {comment}"\<close> for a
     comment that is true\<close>
  "entry_line ip hostname comment =
     ip @ [0x09] @ hostname @
     (case comment of None \<Rightarrow> [] | Some c \<Rightarrow> if c \<noteq> [] then py ''  # '' @ c else [])"

definition list_insert :: "nat \<Rightarrow> 'a \<Rightarrow> 'a list \<Rightarrow> 'a list" where
  \<comment> \<open>\<open>xs.insert(i, x)\<close> for \<open>i \<ge> 0\<close>; beyond the end it appends\<close>
  "list_insert i x xs = take i xs @ x # drop i xs"

definition add_entry ::
  "pystr \<Rightarrow> pystr \<Rightarrow> pystr option \<Rightarrow> pystr option \<Rightarrow> pystr \<Rightarrow> editor
     \<Rightarrow> editor \<times> event list" where
  "add_entry ip hostname section comment answer e =
     (let entry = entry_line ip hostname comment;
          new_lines =
            (case section of
               None \<Rightarrow> lines e @ [entry]
             | Some s \<Rightarrow>
                 if s = [] then lines e @ [entry]
                 else (case find_section_index s (lines e) of
                         None \<Rightarrow> (lines e @ [0x0A # py ''# '' @ s]) @ [entry]
                       | Some idx \<Rightarrow> list_insert (idx + 1) entry (lines e)))
      in write_file (Some new_lines) answer e)"

definition delete_entry :: "pystr \<Rightarrow> pystr \<Rightarrow> editor \<Rightarrow> editor \<times> event list" where
  "delete_entry hostname answer e =
     (let new_lines = filter (\<lambda>l. \<not> contains hostname l) (lines e)
      in if new_lines = lines e then (e, [Print (NoEntryFound hostname)])
         else write_file (Some new_lines) answer e)"

fun comment_lines :: "pystr \<Rightarrow> pystr list \<Rightarrow> pystr list \<times> bool" where
  \<comment> \<open>the loop of \<open>comment_entry\<close>: the new lines and \<open>updated\<close>\<close>
  "comment_lines hostname [] = ([], False)"
| "comment_lines hostname (line # rest) =
     (let (new_lines, updated) = comment_lines hostname rest
      in if contains hostname line \<and> \<not> startswith (strip line) (py ''#'')
         then ((py ''# '' @ line) # new_lines, True)
         else (line # new_lines, updated))"

definition comment_entry :: "pystr \<Rightarrow> pystr \<Rightarrow> editor \<Rightarrow> editor \<times> event list" where
  "comment_entry hostname answer e =
     (let (new_lines, updated) = comment_lines hostname (lines e)
      in if updated then write_file (Some new_lines) answer e
         else (e, [Print (NoActiveEntryFound hostname)]))"

fun uncomment_lines :: "pystr \<Rightarrow> pystr list \<Rightarrow> pystr list \<times> bool" where
  \<comment> \<open>the loop of \<open>uncomment_entry\<close>: the new lines and \<open>updated\<close>\<close>
  "uncomment_lines hostname [] = ([], False)"
| "uncomment_lines hostname (line # rest) =
     (let (new_lines, updated) = uncomment_lines hostname rest
      in if contains hostname line \<and> startswith (strip line) (py ''#'')
         then (re_sub_hash_space line # new_lines, True)
         else (line # new_lines, updated))"

definition uncomment_entry :: "pystr \<Rightarrow> pystr \<Rightarrow> editor \<Rightarrow> editor \<times> event list" where
  "uncomment_entry hostname answer e =
     (let (new_lines, updated) = uncomment_lines hostname (lines e)
      in if updated then write_file (Some new_lines) answer e
         else (e, [Print (NoCommentedEntryFound hostname)]))"

definition py_in :: "pystr option \<Rightarrow> pystr \<Rightarrow> py_error + bool" where
  \<comment> \<open>\<open>query in line\<close>: with \<open>None\<close> on the left, \<open>str.__contains__\<close> raises TypeError\<close>
  "py_in query line = (case query of None \<Rightarrow> Inl TypeError | Some q \<Rightarrow> Inr (contains q line))"

fun search_lines :: "pystr option \<Rightarrow> nat \<Rightarrow> pystr list \<Rightarrow> py_error + event list" where
  \<comment> \<open>the loop of \<open>search_entries\<close> from line number \<open>i\<close> on: what it prints, or the
     exception that ends it\<close>
  "search_lines query i [] = Inr []"
| "search_lines query i (line # rest) =
     (case py_in query line of
        Inl err \<Rightarrow> Inl err
      | Inr hit \<Rightarrow>
          (case search_lines query (i + 1) rest of
             Inl err \<Rightarrow> Inl err
           | Inr printed \<Rightarrow> Inr ((if hit then [Print (SearchHit i line)] else []) @ printed)))"

definition search_entries :: "pystr option \<Rightarrow> editor \<Rightarrow> py_error + event list" where
  \<comment> \<open>\<open>found\<close> is true exactly when a line was printed\<close>
  "search_entries query e =
     (case search_lines query 1 (lines e) of
        Inl err \<Rightarrow> Inl err
      | Inr printed \<Rightarrow> Inr (if printed = [] then [Print (NoResults query)] else printed))"

definition search :: "pystr option \<Rightarrow> editor \<Rightarrow> py_error + event list" where
  \<comment> \<open>the \<open>search\<close> command of \<open>cli.py\<close>; \<open>--query\<close> defaults to \<open>None\<close>\<close>
  "search query e = search_entries query e"

definition header_shape :: "pystr \<Rightarrow> bool" where
  \<comment> \<open>\<open>s.startswith("#") and s.endswith("#") and len(s) > 2\<close>\<close>
  "header_shape s = (startswith s (py ''#'') \<and> endswith s (py ''#'') \<and> length s > 2)"

definition extract_site :: "pystr \<Rightarrow> pystr" where
  \<comment> \<open>\<open>stripped_line[1:].split("#")[0].strip()\<close>\<close>
  "extract_site stripped_line = strip (before_first_hash (drop 1 stripped_line))"

definition list_sections_site :: "pystr \<Rightarrow> pystr option" where
  \<comment> \<open>the site decision of \<open>list_sections\<close> on a stripped line that has not the shape of a
     header: the site name, or \<open>None\<close> when the line is no site comment\<close>
  "list_sections_site stripped_line =
     (if startswith stripped_line (py ''#'') \<and> \<not> startswith stripped_line (py ''##'') then
        (let site_name = extract_site stripped_line
         in if site_name \<noteq> [] \<and> \<not> starts_with_digit site_name then Some site_name
            else None)
      else None)"

definition toggle_section_site :: "pystr \<Rightarrow> pystr option" where
  \<comment> \<open>the site decision of \<open>toggle_section\<close> on a stripped line that has not the shape of a
     header: the new \<open>current_site\<close>, or \<open>None\<close> when the line is no site comment\<close>
  "toggle_section_site stripped_line =
     (if startswith stripped_line (py ''#'') \<and> \<not> starts_hash_space_digit stripped_line
      then Some (extract_site stripped_line)
      else None)"

fun list_sections_loop ::
  "pystr option \<Rightarrow> pystr list \<Rightarrow> (pystr \<times> pystr list) list \<Rightarrow> pystr list
     \<Rightarrow> (pystr \<times> pystr list) list" where
  \<comment> \<open>the loop of \<open>list_sections\<close> with \<open>current_section\<close>, \<open>current_sites\<close> and \<open>sections\<close>,
     and the append after it\<close>
  "list_sections_loop current_section current_sites sections [] =
     (case current_section of
        None \<Rightarrow> sections
      | Some name \<Rightarrow> if name \<noteq> [] then sections @ [(name, current_sites)] else sections)"
| "list_sections_loop current_section current_sites sections (line # rest) =
     (let stripped_line = strip line in
      if header_shape stripped_line then
        (let section_name = strip (strip_chars (py ''#'') stripped_line) in
         if section_name \<noteq> [] \<and> isupper section_name then
           (case current_section of
              None \<Rightarrow> list_sections_loop (Some section_name) current_sites sections rest
            | Some name \<Rightarrow>
                if name \<noteq> [] then
                  list_sections_loop (Some section_name) []
                    (sections @ [(name, current_sites)]) rest
                else list_sections_loop (Some section_name) current_sites sections rest)
         else list_sections_loop current_section current_sites sections rest)
      else
        (case list_sections_site stripped_line of
           None \<Rightarrow> list_sections_loop current_section current_sites sections rest
         | Some site_name \<Rightarrow>
             if truthy current_section then
               list_sections_loop current_section (current_sites @ [site_name]) sections rest
             else list_sections_loop current_section current_sites sections rest))"

definition list_sections :: "editor \<Rightarrow> (pystr \<times> pystr list) list \<times> event list" where
  \<comment> \<open>the sections found, and what is printed\<close>
  "list_sections e =
     (let sections = list_sections_loop None [] [] (lines e)
      in (sections, [Print (if sections \<noteq> [] then SectionsFound sections else NoSectionsFound)]))"

fun find_section_header :: "pystr \<Rightarrow> pystr list \<Rightarrow> nat option" where
  \<comment> \<open>the first loop of \<open>toggle_section\<close>: \<open>start_idx\<close>\<close>
  "find_section_header section [] = None"
| "find_section_header section (line # rest) =
     (let stripped_line = strip line in
      if header_shape stripped_line
         \<and> strip (strip_chars (py ''#'') stripped_line) = upper section
      then Some 0
      else map_option Suc (find_section_header section rest))"

fun toggle_lines ::
  "pystr option \<Rightarrow> bool \<Rightarrow> pystr option \<Rightarrow> pystr list \<Rightarrow> pystr list \<times> nat" where
  \<comment> \<open>the second loop of \<open>toggle_section\<close> over the lines after the header, with
     \<open>current_site\<close>: these lines as the loop leaves them in \<open>new_lines\<close>, and \<open>updated\<close>\<close>
  "toggle_lines site enable current_site [] = ([], 0)"
| "toggle_lines site enable current_site (line # rest) =
     (let stripped_line = strip line in
      if header_shape stripped_line then (line # rest, 0)
      else
        (case toggle_section_site stripped_line of
           Some name \<Rightarrow>
             (let (new_rest, updated) = toggle_lines site enable (Some name) rest
              in (line # new_rest, updated))
         | None \<Rightarrow>
             (let (new_rest, updated) = toggle_lines site enable current_site rest in
              if stripped_line = []
                 \<or> (startswith stripped_line (py ''#'') \<and> \<not> starts_hash_space_digit stripped_line)
              then (line # new_rest, updated)
              else if site = None \<or> (truthy current_site \<and> current_site = site) then
                (if enable \<and> startswith stripped_line (py ''#'')
                   then (re_sub_hash_space line # new_rest, updated + 1)
                 else if \<not> enable \<and> \<not> startswith stripped_line (py ''#'')
                   then ((py ''# '' @ line) # new_rest, updated + 1)
                 else (line # new_rest, updated))
              else (line # new_rest, updated))))"

definition toggle_section ::
  "pystr \<Rightarrow> pystr option \<Rightarrow> bool \<Rightarrow> pystr \<Rightarrow> editor
     \<Rightarrow> nat option \<times> editor \<times> event list" where
  \<comment> \<open>the first component is what the method returns: \<open>Some 0\<close> for \<open>return 0\<close>, and \<open>None\<close>
     where it runs to its end with no \<open>return\<close>\<close>
  "toggle_section section site enable answer e =
     (case find_section_header section (lines e) of
        None \<Rightarrow> (Some 0, e, [Print (SectionNotFound section)])
      | Some start_idx \<Rightarrow>
          (let (new_rest, updated) =
                 toggle_lines site enable None (drop (start_idx + 1) (lines e));
               new_lines = take (start_idx + 1) (lines e) @ new_rest
           in if updated \<noteq> 0 then
                (let (e', events) = write_file (Some new_lines) answer e
                 in (None, e', events))
              else
                (case site of
                   None \<Rightarrow> (None, e, [Print (NoChangesNeededSection section)])
                 | Some s \<Rightarrow>
                     if s \<noteq> [] then (None, e, [Print (NoChangesNeededSite s section)])
                     else (None, e, [Print (NoChangesNeededSection section)]))))"

definition summary_site :: "pystr option \<Rightarrow> pystr option" where
  \<comment> \<open>\<open>f" for site '{site}'" if site else ""\<close>\<close>
  "summary_site site = (if truthy site then site else None)"

definition disable_section :: "pystr \<Rightarrow> pystr option \<Rightarrow> pystr \<Rightarrow> editor \<Rightarrow> editor \<times> event list"
  where
  \<comment> \<open>the \<open>disable_section\<close> command of \<open>cli.py\<close>; \<open>if updated\<close> is false for \<open>None\<close> and
     for 0\<close>
  "disable_section section site answer e =
     (let (updated, e', events) = toggle_section section site False answer e
      in (e', events @
            (case updated of
               None \<Rightarrow> []
             | Some n \<Rightarrow>
                 if n \<noteq> 0 then [Print (DisabledEntries n section (summary_site site))]
                 else [])))"

definition enable_section :: "pystr \<Rightarrow> pystr option \<Rightarrow> pystr \<Rightarrow> editor \<Rightarrow> editor \<times> event list"
  where
  \<comment> \<open>the \<open>enable_section\<close> command of \<open>cli.py\<close>\<close>
  "enable_section section site answer e =
     (let (updated, e', events) = toggle_section section site True answer e
      in (e', events @
            (case updated of
               None \<Rightarrow> []
             | Some n \<Rightarrow>
                 if n \<noteq> 0 then [Print (EnabledEntries n section (summary_site site))]
                 else [])))"

section \<open>Documents\<close>

definition on_disk :: "pystr list \<Rightarrow> editor" where
  \<comment> \<open>an editor whose file holds the given lines as \<open>_write_file\<close> writes them, with no
     backup beside it\<close>
  "on_disk ls = \<lparr>lines = ls, path_text = file_text ls, bak_text = None\<rparr>"


section \<open>The commit workflow\<close>

lemma write_file_empty: "write_file (Some []) answer e = (e, [Print NoChangesToApply])"
  by (simp add: write_file_def show_diff_def)

lemma filter_all_contains:
  "list_all (contains hostname) ls \<Longrightarrow> filter (\<lambda>l. \<not> contains hostname l) ls = []"
  by (induction ls) auto



text \<open>
  C10. A proposal that is the empty list is replaced by the baseline in
  \<open>new_lines or self.lines\<close>: \<open>_write_file\<close> reports that there is nothing to apply and
  changes neither the file, nor the backup, nor the baseline, whatever the answer would
  be. \<open>delete_entry\<close> proposes the empty list when every line of a non-empty document
  contains the host name, so the file is not emptied.
\<close>

theorem empty_proposal_keeps_baseline:
  "write_file (Some []) answer e = (e, [Print NoChangesToApply])
   \<and> (lines e \<noteq> [] \<and> list_all (contains hostname) (lines e)
        \<longrightarrow> delete_entry hostname answer e = (e, [Print NoChangesToApply]))"
  by (auto simp: write_file_empty delete_entry_def filter_all_contains Let_def)

theorem empty_proposal_keeps_baseline_witness:
  "lines (on_disk [py ''127.0.0.1 foo'', py ''# foo'']) \<noteq> []
   \<and> list_all (contains (py ''foo'')) (lines (on_disk [py ''127.0.0.1 foo'', py ''# foo'']))
   \<and> delete_entry (py ''foo'') (py ''y'') (on_disk [py ''127.0.0.1 foo'', py ''# foo''])
       = (on_disk [py ''127.0.0.1 foo'', py ''# foo''], [Print NoChangesToApply])
   \<and> path_text (fst (delete_entry (py ''foo'') (py ''y'') (on_disk [py ''127.0.0.1 foo'', py ''# foo''])))
       = py ''127.0.0.1 foo'' @ [0x0A] @ py ''# foo'' @ [0x0A]"
proof -
  let ?e = "on_disk [py ''127.0.0.1 foo'', py ''# foo'']"
  have h: "lines ?e \<noteq> [] \<and> list_all (contains (py ''foo'')) (lines ?e)"
    by (simp add: on_disk_def startswith_def)
  with empty_proposal_keeps_baseline [of "py ''y''" ?e "py ''foo''"]
  have "delete_entry (py ''foo'') (py ''y'') ?e = (?e, [Print NoChangesToApply])"
    by blast
  with h show ?thesis
    by (simp add: on_disk_def file_text_def)
qed

section \<open>Writing and reloading\<close>











section \<open>Adding an entry\<close>

text \<open>
  C6. For the section \<open>DEV\<close>, which the document does not have, \<open>add_entry\<close> appends the
  element \<open>"\n# DEV"\<close> and the entry, and the file gets a blank line, the line \<open># DEV\<close>
  and the entry. That line has not the form \<open># NAME #\<close> by which \<open>list_sections\<close> and
  \<open>toggle_section\<close> know a header: after the commit, and after reloading the file,
  \<open>list_sections\<close> finds no section and \<open>toggle_section\<close> does not find \<open>DEV\<close>; behind
  the section \<open>WORK\<close> the new line is listed as a site of \<open>WORK\<close>. No section block
  is created. And a section that the document does not have is taken as found when a
  comment line \<open># name\<close> stands in it: the entry is inserted behind that comment and
  nothing is appended.
\<close>

theorem add_entry_creates_no_section:
  "lines (fst (add_entry (py ''10.0.0.1'') (py ''dev.test'') (Some (py ''DEV'')) None (py ''y'')
       (on_disk [py ''127.0.0.1 localhost''])))
     = [py ''127.0.0.1 localhost'', 0x0A # py ''# DEV'', py ''10.0.0.1'' @ [0x09] @ py ''dev.test'']
   \<and> read_file (fst (add_entry (py ''10.0.0.1'') (py ''dev.test'') (Some (py ''DEV'')) None
       (py ''y'') (on_disk [py ''127.0.0.1 localhost''])))
     = [py ''127.0.0.1 localhost'', [], py ''# DEV'', py ''10.0.0.1'' @ [0x09] @ py ''dev.test'']
   \<and> list_sections (fst (add_entry (py ''10.0.0.1'') (py ''dev.test'') (Some (py ''DEV'')) None
       (py ''y'') (on_disk [py ''127.0.0.1 localhost''])))
     = ([], [Print NoSectionsFound])
   \<and> list_sections (on_disk [py ''127.0.0.1 localhost'', [], py ''# DEV'',
       py ''10.0.0.1'' @ [0x09] @ py ''dev.test''])
     = ([], [Print NoSectionsFound])
   \<and> fst (toggle_section (py ''DEV'') None False (py ''y'')
       (on_disk [py ''127.0.0.1 localhost'', [], py ''# DEV'',
          py ''10.0.0.1'' @ [0x09] @ py ''dev.test'']))
     = Some 0
   \<and> snd (snd (toggle_section (py ''DEV'') None False (py ''y'')
       (on_disk [py ''127.0.0.1 localhost'', [], py ''# DEV'',
          py ''10.0.0.1'' @ [0x09] @ py ''dev.test''])))
     = [Print (SectionNotFound (py ''DEV''))]
   \<and> fst (list_sections (fst (add_entry (py ''10.0.0.1'') (py ''dev.test'') (Some (py ''DEV''))
       None (py ''y'') (on_disk [py ''# WORK #'', py ''127.0.0.1 localhost'']))))
     = [(py ''WORK'', [py ''DEV''])]
   \<and> fst (list_sections (on_disk [py ''# WORK #'', py ''# example.com'',
       py ''127.0.0.1'' @ [0x09] @ py ''example.com'']))
     = [(py ''WORK'', [py ''example.com''])]
   \<and> lines (fst (add_entry (py ''10.0.0.1'') (py ''dev.test'') (Some (py ''example.com'')) None
       (py ''y'') (on_disk [py ''# WORK #'', py ''# example.com'',
          py ''127.0.0.1'' @ [0x09] @ py ''example.com''])))
     = [py ''# WORK #'', py ''# example.com'', py ''10.0.0.1'' @ [0x09] @ py ''dev.test'',
        py ''127.0.0.1'' @ [0x09] @ py ''example.com'']"
  by code_simp

text \<open>
  C2. \<open>_find_section_index\<close> compares the stripped, lower-cased line with \<open># section\<close>,
  so it does not find the header \<open># WORK #\<close> that \<open>list_sections\<close> and \<open>toggle_section\<close>
  recognise: for the section \<open>WORK\<close>, \<open>add_entry\<close> does not insert the entry after that
  header, it appends a second header \<open># WORK\<close> and the entry at the end.
\<close>

theorem add_entry_misses_section_header:
  "find_section_index (py ''WORK'') [py ''# WORK #'', py ''127.0.0.1'' @ [0x09] @ py ''foo.test''] = None
   \<and> find_section_header (py ''WORK'') [py ''# WORK #'', py ''127.0.0.1'' @ [0x09] @ py ''foo.test'']
       = Some 0
   \<and> fst (list_sections (on_disk [py ''# WORK #'', py ''127.0.0.1'' @ [0x09] @ py ''foo.test'']))
       = [(py ''WORK'', [])]
   \<and> lines (fst (add_entry (py ''10.0.0.1'') (py ''bar.test'') (Some (py ''WORK'')) None (py ''y'')
         (on_disk [py ''# WORK #'', py ''127.0.0.1'' @ [0x09] @ py ''foo.test''])))
       = [py ''# WORK #'', py ''127.0.0.1'' @ [0x09] @ py ''foo.test'', 0x0A # py ''# WORK'',
          py ''10.0.0.1'' @ [0x09] @ py ''bar.test'']
   \<and> read_file (fst (add_entry (py ''10.0.0.1'') (py ''bar.test'') (Some (py ''WORK'')) None (py ''y'')
         (on_disk [py ''# WORK #'', py ''127.0.0.1'' @ [0x09] @ py ''foo.test''])))
       = [py ''# WORK #'', py ''127.0.0.1'' @ [0x09] @ py ''foo.test'', [], py ''# WORK'',
          py ''10.0.0.1'' @ [0x09] @ py ''bar.test'']"
  by code_simp

section \<open>Deleting an entry\<close>

lemma delete_entry_some_left:
  assumes "filter (\<lambda>l. \<not> contains hostname l) (lines e) \<noteq> []"
    and "list_ex (contains hostname) (lines e)"
    and "lower (strip answer) = py ''y''"
  shows "lines (fst (delete_entry hostname answer e))
      = filter (\<lambda>l. \<not> contains hostname l) (lines e)"
proof -
  from assms(2) have "filter (\<lambda>l. \<not> contains hostname l) (lines e) \<noteq> lines e"
    by (auto simp: list_ex_iff filter_id_conv)
  with assms(1,3) show ?thesis
    by (simp add: delete_entry_def write_file_def show_diff_def copy2_def write_text_def Let_def)
qed

lemma delete_entry_no_match:
  assumes "\<not> list_ex (contains hostname) (lines e)"
  shows "delete_entry hostname answer e = (e, [Print (NoEntryFound hostname)])"
proof -
  from assms have "filter (\<lambda>l. \<not> contains hostname l) (lines e) = lines e"
    by (auto simp: list_ex_iff filter_id_conv)
  then show ?thesis
    by (simp add: delete_entry_def)
qed

text \<open>
  C7. When every line of the document contains the host name, \<open>delete_entry\<close> proposes the
  empty list, which \<open>_write_file\<close> replaces by the baseline: the lines that contain the host
  name are not removed, and the user is told that there is nothing to apply.
\<close>

theorem delete_entry_keeps_only_lines:
  "list_all (contains (py ''foo.test'')) [py ''127.0.0.1 foo.test'', py ''# 10.0.0.1 foo.test'']
   \<and> filter (\<lambda>l. \<not> contains (py ''foo.test'') l) [py ''127.0.0.1 foo.test'', py ''# 10.0.0.1 foo.test''] = []
   \<and> delete_entry (py ''foo.test'') (py ''y'') (on_disk [py ''127.0.0.1 foo.test'', py ''# 10.0.0.1 foo.test''])
       = (on_disk [py ''127.0.0.1 foo.test'', py ''# 10.0.0.1 foo.test''], [Print NoChangesToApply])"
  by code_simp

section \<open>Disabling and enabling an entry\<close>

lemma contains_append: "contains h l \<Longrightarrow> contains h (p @ l)"
  by (induction p) simp_all

lemma dropWhile_snoc_keeps:
  "\<not> P x \<Longrightarrow> \<exists>u. dropWhile P (xs @ [x]) = u @ [x]"
  by (induction xs) simp_all

lemma strip_hash_first: "startswith (strip (0x23 # t)) (py ''#'')"
proof -
  have h: "\<not> isspace (0x23)"
    by (simp add: isspace_def)
  from dropWhile_snoc_keeps [of isspace "0x23" "rev t", OF h]
  obtain u where u: "dropWhile isspace (rev t @ [0x23]) = u @ [0x23]" ..
  have "strip (0x23 # t) = rev (dropWhile isspace (rev t @ [0x23]))"
    using h by (simp add: strip_def)
  also have "\<dots> = 0x23 # rev u"
    by (simp only: u rev_append rev.simps append.simps)
  finally have "strip (0x23 # t) = 0x23 # rev u" .
  then show ?thesis
    by (simp add: startswith_def)
qed

text \<open>
  C4, as amended. A line that contains the host name and does not start with \<open>#\<close> after
  stripping is disabled by \<open>comment_entry\<close> to \<open>"# " + line\<close>, and \<open>uncomment_entry\<close> turns
  that into the line without its leading white space: \<open>\s*\<close> takes the blank of the prefix
  and all the white space after it. The original line comes back exactly when it does
  not start with white space.
\<close>

theorem comment_then_uncomment:
  assumes "contains hostname line" and "\<not> startswith (strip line) (py ''#'')"
  shows "comment_lines hostname [line] = ([py ''# '' @ line], True)
    \<and> uncomment_lines hostname [py ''# '' @ line] = ([dropWhile isspace line], True)
    \<and> ((dropWhile isspace line = line) = (line = [] \<or> \<not> isspace (hd line)))"
proof -
  have c: "contains hostname (py ''# '' @ line)"
    using assms(1) by (rule contains_append)
  have s: "startswith (strip (py ''# '' @ line)) (py ''#'')"
    using strip_hash_first by simp
  have sp: "isspace (0x20)"
    by (simp add: isspace_def)
  have 1: "comment_lines hostname [line] = ([py ''# '' @ line], True)"
    using assms by simp
  have "re_sub_hash_space (py ''# '' @ line) = dropWhile isspace line"
    using sp by simp
  with c s have 2: "uncomment_lines hostname [py ''# '' @ line] = ([dropWhile isspace line], True)"
    by simp
  have 3: "(dropWhile isspace line = line) = (line = [] \<or> \<not> isspace (hd line))"
  proof (cases line)
    case Nil
    then show ?thesis by simp
  next
    case (Cons a list)
    have "length (dropWhile isspace list) \<le> length list"
      by (rule length_dropWhile_le)
    then have "dropWhile isspace list \<noteq> a # list"
      by auto
    with Cons show ?thesis by simp
  qed
  from 1 2 3 show ?thesis by blast
qed


theorem comment_then_uncomment_witness:
  "contains (py ''foo.test'') (py ''10.0.0.1 foo.test'')
   \<and> \<not> startswith (strip (py ''10.0.0.1 foo.test'')) (py ''#'')
   \<and> comment_lines (py ''foo.test'') [py ''10.0.0.1 foo.test''] = ([py ''# 10.0.0.1 foo.test''], True)
   \<and> uncomment_lines (py ''foo.test'') [py ''# 10.0.0.1 foo.test''] = ([py ''10.0.0.1 foo.test''], True)"
proof -
  have h1: "contains (py ''foo.test'') (py ''10.0.0.1 foo.test'')"
    by code_simp
  have h2: "\<not> startswith (strip (py ''10.0.0.1 foo.test'')) (py ''#'')"
    by code_simp
  have d: "dropWhile isspace (py ''10.0.0.1 foo.test'') = py ''10.0.0.1 foo.test''"
    by code_simp
  show ?thesis
    using h1 h2 d comment_then_uncomment [OF h1 h2]
    by simp
qed

text \<open>
  C4 as stated fails on a line that starts with blanks: they are lost.
\<close>

theorem comment_then_uncomment_counterexample:
  "contains (py ''foo.test'') (py ''  10.0.0.1 foo.test'')
   \<and> \<not> startswith (strip (py ''  10.0.0.1 foo.test'')) (py ''#'')
   \<and> comment_lines (py ''foo.test'') [py ''  10.0.0.1 foo.test'']
       = ([py ''#   10.0.0.1 foo.test''], True)
   \<and> uncomment_lines (py ''foo.test'') [py ''#   10.0.0.1 foo.test'']
       = ([py ''10.0.0.1 foo.test''], True)
   \<and> py ''10.0.0.1 foo.test'' \<noteq> py ''  10.0.0.1 foo.test''"
  by code_simp

section \<open>Searching\<close>

text \<open>
  C3. With no query, \<open>query in line\<close> raises TypeError at the first line: the search
  raises on every document that has a line, and reports no result only on the empty
  document.
\<close>

theorem search_without_query_raises:
  "search None (on_disk [py ''127.0.0.1 localhost'']) = Inl TypeError
   \<and> search None e = (if lines e = [] then Inr [Print (NoResults None)] else Inl TypeError)"
proof
  show "search None (on_disk [py ''127.0.0.1 localhost'']) = Inl TypeError"
    by code_simp
  show "search None e = (if lines e = [] then Inr [Print (NoResults None)] else Inl TypeError)"
    by (cases "lines e") (simp_all add: search_def search_entries_def py_in_def)
qed

section \<open>Sections and sites\<close>

lemma toggle_section_returns:
  "fst (toggle_section section site enable answer e) =
     (case find_section_header section (lines e) of None \<Rightarrow> Some 0 | Some i \<Rightarrow> None)"
  by (simp add: toggle_section_def Let_def split: option.splits prod.splits)

lemma toggle_section_no_changes:
  assumes "find_section_header section (lines e) = Some start_idx"
    and "snd (toggle_lines site enable None (drop (start_idx + 1) (lines e))) = 0"
  shows "toggle_section section site enable answer e =
     (None, e, [Print (case site of
                         None \<Rightarrow> NoChangesNeededSection section
                       | Some s \<Rightarrow> if s \<noteq> [] then NoChangesNeededSite s section
                                  else NoChangesNeededSection section)])"
proof -
  obtain new_rest updated
    where t: "toggle_lines site enable None (drop (start_idx + 1) (lines e)) = (new_rest, updated)"
    by (cases "toggle_lines site enable None (drop (start_idx + 1) (lines e))")
  with assms(2) have "updated = 0"
    by simp
  with assms(1) t show ?thesis
    by (simp add: toggle_section_def split: option.splits)
qed

lemma disable_section_no_summary:
  "snd (disable_section section site answer e)
     = snd (snd (toggle_section section site False answer e))"
proof -
  have "fst (toggle_section section site False answer e) \<in> {None, Some 0}"
    by (simp add: toggle_section_returns split: option.splits)
  then show ?thesis
    by (auto simp: disable_section_def split: prod.splits)
qed

text \<open>
  C1. On the document \<open># WORK #\<close>, \<open># example.com\<close>, \<open>127.0.0.1<TAB>example.com\<close>,
  disabling the site \<open>example.com\<close> of the section \<open>work\<close> toggles one line and commits
  it, but \<open>toggle_section\<close> ends without a \<open>return\<close>: the caller receives \<open>None\<close>, not the
  count 1, and \<open>disable_section\<close> prints no summary.
\<close>

theorem toggle_section_returns_no_count:
  "toggle_section (py ''work'') (Some (py ''example.com'')) False (py ''y'')
     (on_disk [py ''# WORK #'', py ''# example.com'', py ''127.0.0.1'' @ [0x09] @ py ''example.com''])
   = (None,
      \<lparr>lines = [py ''# WORK #'', py ''# example.com'',
                 py ''# 127.0.0.1'' @ [0x09] @ py ''example.com''],
        path_text = file_text [py ''# WORK #'', py ''# example.com'',
                 py ''# 127.0.0.1'' @ [0x09] @ py ''example.com''],
        bak_text = Some (file_text [py ''# WORK #'', py ''# example.com'',
                 py ''127.0.0.1'' @ [0x09] @ py ''example.com''])\<rparr>,
      [Print ProposedChanges, Input, Copy2,
       WriteText (file_text [py ''# WORK #'', py ''# example.com'',
                 py ''# 127.0.0.1'' @ [0x09] @ py ''example.com'']),
       Print ChangesApplied])
   \<and> toggle_lines (Some (py ''example.com'')) False None
       [py ''# example.com'', py ''127.0.0.1'' @ [0x09] @ py ''example.com'']
     = ([py ''# example.com'', py ''# 127.0.0.1'' @ [0x09] @ py ''example.com''], 1)
   \<and> snd (disable_section (py ''work'') (Some (py ''example.com'')) (py ''y'')
       (on_disk [py ''# WORK #'', py ''# example.com'',
                 py ''127.0.0.1'' @ [0x09] @ py ''example.com'']))
     = [Print ProposedChanges, Input, Copy2,
       WriteText (file_text [py ''# WORK #'', py ''# example.com'',
                 py ''# 127.0.0.1'' @ [0x09] @ py ''example.com'']),
       Print ChangesApplied]"
  by code_simp

text \<open>
  C5. The two site decisions differ. \<open>list_sections\<close> rejects the commented entry
  \<open>#127.0.0.1 a.com\<close> (its name starts with a digit) and the doubled \<open>## note\<close>;
  \<open>toggle_section\<close> tests for \<open>"# "\<close> and a digit only, so it takes the first as the site
  \<open>127.0.0.1 a.com\<close> and the second as a site with the empty name. So an entry that
  \<open>list_sections\<close> puts under the site \<open>a.com\<close> is not disabled for that site once
  \<open>## note\<close> stands before it, and \<open>#127.0.0.1 a.com\<close> is never enabled.
\<close>

theorem site_decisions_differ:
  "list_sections_site (py ''#127.0.0.1 a.com'') = None
   \<and> toggle_section_site (py ''#127.0.0.1 a.com'') = Some (py ''127.0.0.1 a.com'')
   \<and> list_sections_site (py ''## note'') = None
   \<and> toggle_section_site (py ''## note'') = Some []
   \<and> fst (list_sections (on_disk [py ''# WORK #'', py ''# a.com'', py ''## note'', py ''10.0.0.1 a.com'']))
       = [(py ''WORK'', [py ''a.com''])]
   \<and> disable_section (py ''work'') (Some (py ''a.com'')) (py ''y'')
         (on_disk [py ''# WORK #'', py ''# a.com'', py ''## note'', py ''10.0.0.1 a.com''])
       = (on_disk [py ''# WORK #'', py ''# a.com'', py ''## note'', py ''10.0.0.1 a.com''],
          [Print (NoChangesNeededSite (py ''a.com'') (py ''work''))])
   \<and> enable_section (py ''work'') None (py ''y'') (on_disk [py ''# WORK #'', py ''#127.0.0.1 a.com''])
       = (on_disk [py ''# WORK #'', py ''#127.0.0.1 a.com''],
          [Print (NoChangesNeededSection (py ''work''))])"
  by code_simp

end
